theory Spec2Isabelle
  imports Main
begin

section \<open>Property form model (app/models/property_form.py)\<close>

text \<open>
  Python \<open>str\<close> values are modelled as \<^typ>\<open>string\<close>. Text beyond ASCII in the
  source's literals is kept as the UTF-8 bytes that stand in the source file.
\<close>

datatype error =
    ReError          \<comment> \<open>\<open>re.error\<close>, raised by \<open>re.compile\<close> on an ill-formed pattern\<close>
  | ValidationError  \<comment> \<open>pydantic's error, raised by \<open>model_validate\<close>\<close>
  | TypeError        \<comment> \<open>raised by \<open>+= 1\<close> on a value that is not a number\<close>
  | KeyError         \<comment> \<open>raised by \<open>state[key]\<close> on an absent key\<close>

datatype FieldStatus = NOT_PROVIDED | INVALID | VALID

text \<open>
  \<open>PropertyField\<close>. The attribute \<open>value\<close> of the source is named \<open>field_value\<close> here,
  \<open>value\<close> being a keyword of Isabelle.
\<close>

record PropertyField =
  status :: FieldStatus
  field_value :: "string option"
  description :: string
  examples :: "string list"
  validation_pattern :: "string option"

text \<open>
  The regular expression engine is Python's \<open>re\<close> module, which is not part of the
  repository. It is a parameter \<open>rx\<close> of every function that reaches it:
  \<open>rx p v = None\<close> when \<open>re.compile(p)\<close> raises \<open>re.error\<close>, and \<open>rx p v = Some b\<close>
  where \<open>b\<close> tells whether \<open>re.compile(p).match(v)\<close> is a match object (a match of
  \<open>p\<close> at the start of \<open>v\<close>).
\<close>

type_synonym regex_engine = "string \<Rightarrow> string \<Rightarrow> bool option"

definition pattern_mismatch_msg :: string where
  "pattern_mismatch_msg = ''The value does not match the expected pattern for this field.''"

text \<open>
  \<open>validate_value\<close>: the guard \<open>self.validation_pattern and value\<close> is Python truthiness,
  so a pattern that is \<open>None\<close> or the empty string, and a value that is the empty string,
  skip the check. The method assigns nothing: it is a function of the field and the value.
\<close>

definition validate_value ::
  "regex_engine \<Rightarrow> PropertyField \<Rightarrow> string \<Rightarrow> error + (bool \<times> string option)" where
  "validate_value rx fld v =
     (case validation_pattern fld of
        None \<Rightarrow> Inr (True, None)
      | Some p \<Rightarrow>
          if p \<noteq> [] \<and> v \<noteq> [] then
            (case rx p v of
               None \<Rightarrow> Inl ReError
             | Some m \<Rightarrow> if \<not> m then Inr (False, Some pattern_mismatch_msg) else Inr (True, None))
          else Inr (True, None))"

record PropertyFormModel =
  budget :: PropertyField
  total_size :: PropertyField
  real_estate_type :: PropertyField
  city :: PropertyField
  additional_fields :: "(string \<times> PropertyField) list"
  form_complete :: bool

text \<open>
  \<open>additional_fields\<close> is a Python dict: keys are unique and keep their insertion order,
  so it is an association list. \<open>dict_setitem\<close> is \<open>d[k] = v\<close>: an existing key keeps
  its place, a new key goes last.
\<close>

fun dict_setitem :: "string \<Rightarrow> 'a \<Rightarrow> (string \<times> 'a) list \<Rightarrow> (string \<times> 'a) list" where
  "dict_setitem k v [] = [(k, v)]"
| "dict_setitem k v ((k', v') # d) =
     (if k' = k then (k, v) # d else (k', v') # dict_setitem k v d)"

text \<open>A field as the \<open>default_factory\<close> lambdas build it: status and value at their defaults.\<close>

definition default_field :: "string \<Rightarrow> string list \<Rightarrow> PropertyField" where
  "default_field d ex =
     \<lparr>status = NOT_PROVIDED, field_value = None, description = d, examples = ex,
      validation_pattern = None\<rparr>"

definition sq_metres_suffix :: string where
  "sq_metres_suffix = [CHR 0xC2, CHR 0xAC, CHR 0xE2, CHR 0x89, CHR 0xA4]"

text \<open>\<open>PropertyFormModel()\<close>: the freshly created form.\<close>

definition new_form :: PropertyFormModel where
  "new_form =
     \<lparr>budget = default_field ''Budget for the property (e.g., 20,000 USD)''
        [''I have a budget of 20,000 USD'', ''My budget is 50,000 dollars''],
      total_size = default_field
        (''Total size requirement (e.g., 500m'' @ sq_metres_suffix @ '')'')
        [''I need 500m'' @ sq_metres_suffix,
         ''I'' @ [CHR 0x27] @ ''m looking for 300 square meters''],
      real_estate_type = default_field
        ''Type of real estate (e.g., office, retail, warehouse)''
        [''I am looking for an office space'', ''I need a retail location''],
      city = default_field ''City location (e.g., Mexico City)''
        [''I want a property in Mexico City'', ''Looking in Barcelona''],
      additional_fields = [],
      form_complete = False\<rparr>"

definition is_complete :: "PropertyFormModel \<Rightarrow> bool" where
  "is_complete f =
     list_all (\<lambda>fld. status fld = VALID) [budget f, total_size f, real_estate_type f, city f]"

definition update_completion_status :: "PropertyFormModel \<Rightarrow> PropertyFormModel \<times> bool" where
  "update_completion_status f =
     (let f' = f\<lparr>form_complete := is_complete f\<rparr> in (f', form_complete f'))"

text \<open>\<open>get_missing_fields\<close>: the loop over the dict literal \<open>fields_map\<close>, in its order.\<close>

definition fields_map :: "PropertyFormModel \<Rightarrow> (string \<times> PropertyField) list" where
  "fields_map f =
     [(''budget'', budget f), (''total_size'', total_size f),
      (''real_estate_type'', real_estate_type f), (''city'', city f)]"

fun missing_loop :: "(string \<times> PropertyField) list \<Rightarrow> string list \<Rightarrow> string list" where
  "missing_loop [] missing = missing"
| "missing_loop ((name, fld) # rest) missing =
     missing_loop rest (if status fld \<noteq> VALID then missing @ [name] else missing)"

definition get_missing_fields :: "PropertyFormModel \<Rightarrow> string list" where
  "get_missing_fields f = missing_loop (fields_map f) []"

text \<open>
  \<open>update_field\<close>. \<open>getattr(self, field_name)\<close> is reached only for the four required
  names; the field object it returns is the form's own, so the assignments to it are
  assignments to the form (\<open>setattr_field\<close>).
\<close>

definition required_names :: "string list" where
  "required_names = [''budget'', ''total_size'', ''real_estate_type'', ''city'']"

definition getattr_field :: "PropertyFormModel \<Rightarrow> string \<Rightarrow> PropertyField" where
  "getattr_field f n =
     (if n = ''budget'' then budget f
      else if n = ''total_size'' then total_size f
      else if n = ''real_estate_type'' then real_estate_type f
      else city f)"

definition setattr_field ::
  "PropertyFormModel \<Rightarrow> string \<Rightarrow> PropertyField \<Rightarrow> PropertyFormModel" where
  "setattr_field f n fld =
     (if n = ''budget'' then f\<lparr>budget := fld\<rparr>
      else if n = ''total_size'' then f\<lparr>total_size := fld\<rparr>
      else if n = ''real_estate_type'' then f\<lparr>real_estate_type := fld\<rparr>
      else f\<lparr>city := fld\<rparr>)"

text \<open>
  An \<open>re.error\<close> from \<open>validate_value\<close> leaves \<open>update_field\<close> before any assignment, so
  the form is then as it was; otherwise the updated form is returned with the result.
\<close>

definition update_field ::
  "regex_engine \<Rightarrow> PropertyFormModel \<Rightarrow> string \<Rightarrow> string \<Rightarrow>
     error + (PropertyFormModel \<times> (bool \<times> string option))" where
  "update_field rx f field_name v =
     (if field_name \<in> set required_names then
        (let fld = getattr_field f field_name in
         case validate_value rx fld v of
           Inl e \<Rightarrow> Inl e
         | Inr (is_valid, error_msg) \<Rightarrow>
             (let fld' = fld\<lparr>field_value := Some v,
                            status := (if is_valid then VALID else INVALID)\<rparr>;
                  f' = setattr_field f field_name fld'
              in Inr (fst (update_completion_status f'), (is_valid, error_msg))))
      else
        (case map_of (additional_fields f) field_name of
           None \<Rightarrow>
             Inr (f\<lparr>additional_fields :=
                    dict_setitem field_name
                      \<lparr>status = VALID, field_value = Some v,
                       description = ''Additional field: '' @ field_name,
                       examples = [v], validation_pattern = None\<rparr>
                      (additional_fields f)\<rparr>,
                  (True, None))
         | Some fld \<Rightarrow>
             Inr (f\<lparr>additional_fields :=
                    dict_setitem field_name (fld\<lparr>field_value := Some v, status := VALID\<rparr>)
                      (additional_fields f)\<rparr>,
                  (True, None))))"

text \<open>A sequence of \<open>update_field\<close> calls on one form; an exception ends it.\<close>

fun update_fields ::
  "regex_engine \<Rightarrow> PropertyFormModel \<Rightarrow> (string \<times> string) list \<Rightarrow> error + PropertyFormModel" where
  "update_fields rx f [] = Inr f"
| "update_fields rx f ((n, v) # calls) =
     (case update_field rx f n v of
        Inl e \<Rightarrow> Inl e
      | Inr (f', r) \<Rightarrow> update_fields rx f' calls)"

text \<open>
  \<open>get_fields_summary\<close>. An f-string renders a value that is \<open>None\<close> as the text
  \<open>None\<close>. Python's \<open>str.title\<close> (here) and \<open>str.lower\<close> (in the tools) follow the
  Unicode character tables, which are not part of the repository: like the regular
  expression engine they are parameters, \<open>str_title\<close> and \<open>str_lower\<close>, of every
  function that reaches them. \<open>replace\<close> is only called with one-character strings.
\<close>

definition replace_char :: "char \<Rightarrow> char \<Rightarrow> string \<Rightarrow> string" where
  "replace_char a b s = map (\<lambda>c. if c = a then b else c) s"











section \<open>Session state (app/utils/state_management.py)\<close>

text \<open>
  The session state is a dictionary from keys to plain Python data. \<open>pyval\<close> is the
  plain data the functions here read and write: \<open>None\<close>, booleans, integers, strings,
  lists, and dicts with string keys (in insertion order).
\<close>

datatype pyval =
    PyNone
  | PyBool bool
  | PyInt int
  | PyStr string
  | PyList "pyval list"
  | PyDict "(string \<times> pyval) list"

type_synonym state = "string \<Rightarrow> pyval option"

text \<open>
  \<open>model_dump\<close> and \<open>model_validate\<close> are what pydantic derives from the two class
  declarations: one key per declared attribute, in declaration order; the members of
  \<open>FieldStatus\<close> are strings (their values). \<open>model_validate\<close> takes a dict, gives an
  attribute whose key is absent its declared default (\<open>description\<close> and \<open>examples\<close> have
  none), ignores other keys, and raises \<open>ValidationError\<close> on a value of another type
  than the declared one. Pydantic's coercions of foreign data to the declared types are
  outside this model.
\<close>

definition status_value :: "FieldStatus \<Rightarrow> string" where
  "status_value st =
     (case st of NOT_PROVIDED \<Rightarrow> ''not_provided'' | INVALID \<Rightarrow> ''invalid'' | VALID \<Rightarrow> ''valid'')"

definition dump_optional_str :: "string option \<Rightarrow> pyval" where
  "dump_optional_str x = (case x of None \<Rightarrow> PyNone | Some s \<Rightarrow> PyStr s)"

definition dump_field :: "PropertyField \<Rightarrow> pyval" where
  "dump_field fld =
     PyDict [(''status'', PyStr (status_value (status fld))),
             (''value'', dump_optional_str (field_value fld)),
             (''description'', PyStr (description fld)),
             (''examples'', PyList (map PyStr (examples fld))),
             (''validation_pattern'', dump_optional_str (validation_pattern fld))]"

definition model_dump :: "PropertyFormModel \<Rightarrow> pyval" where
  "model_dump f =
     PyDict [(''budget'', dump_field (budget f)),
             (''total_size'', dump_field (total_size f)),
             (''real_estate_type'', dump_field (real_estate_type f)),
             (''city'', dump_field (city f)),
             (''additional_fields'',
                PyDict (map (\<lambda>kv. (fst kv, dump_field (snd kv))) (additional_fields f))),
             (''form_complete'', PyBool (form_complete f))]"

definition bind_err :: "error + 'a \<Rightarrow> ('a \<Rightarrow> error + 'b) \<Rightarrow> error + 'b" where
  "bind_err m k = (case m of Inl e \<Rightarrow> Inl e | Inr x \<Rightarrow> k x)"

fun validate_all :: "('a \<Rightarrow> error + 'b) \<Rightarrow> 'a list \<Rightarrow> error + 'b list" where
  "validate_all g [] = Inr []"
| "validate_all g (x # xs) =
     bind_err (g x) (\<lambda>y. bind_err (validate_all g xs) (\<lambda>ys. Inr (y # ys)))"

definition validate_status :: "pyval \<Rightarrow> error + FieldStatus" where
  "validate_status x =
     (case x of
        PyStr s \<Rightarrow>
          if s = ''not_provided'' then Inr NOT_PROVIDED
          else if s = ''invalid'' then Inr INVALID
          else if s = ''valid'' then Inr VALID
          else Inl ValidationError
      | _ \<Rightarrow> Inl ValidationError)"

definition validate_optional_str :: "pyval \<Rightarrow> error + string option" where
  "validate_optional_str x =
     (case x of PyNone \<Rightarrow> Inr None | PyStr s \<Rightarrow> Inr (Some s) | _ \<Rightarrow> Inl ValidationError)"

definition validate_str :: "pyval \<Rightarrow> error + string" where
  "validate_str x = (case x of PyStr s \<Rightarrow> Inr s | _ \<Rightarrow> Inl ValidationError)"

definition validate_str_list :: "pyval \<Rightarrow> error + string list" where
  "validate_str_list x =
     (case x of PyList xs \<Rightarrow> validate_all validate_str xs | _ \<Rightarrow> Inl ValidationError)"

definition validate_bool :: "pyval \<Rightarrow> error + bool" where
  "validate_bool x = (case x of PyBool b \<Rightarrow> Inr b | _ \<Rightarrow> Inl ValidationError)"

definition with_default ::
  "(string \<times> pyval) list \<Rightarrow> string \<Rightarrow> 'a \<Rightarrow> (pyval \<Rightarrow> error + 'a) \<Rightarrow> error + 'a" where
  "with_default d k dflt g = (case map_of d k of None \<Rightarrow> Inr dflt | Some x \<Rightarrow> g x)"

definition required_key ::
  "(string \<times> pyval) list \<Rightarrow> string \<Rightarrow> (pyval \<Rightarrow> error + 'a) \<Rightarrow> error + 'a" where
  "required_key d k g = (case map_of d k of None \<Rightarrow> Inl ValidationError | Some x \<Rightarrow> g x)"

definition validate_field :: "pyval \<Rightarrow> error + PropertyField" where
  "validate_field x =
     (case x of
        PyDict d \<Rightarrow>
          bind_err (with_default d ''status'' NOT_PROVIDED validate_status) (\<lambda>st.
          bind_err (with_default d ''value'' None validate_optional_str) (\<lambda>v.
          bind_err (required_key d ''description'' validate_str) (\<lambda>ds.
          bind_err (required_key d ''examples'' validate_str_list) (\<lambda>ex.
          bind_err (with_default d ''validation_pattern'' None validate_optional_str) (\<lambda>vp.
          Inr \<lparr>status = st, field_value = v, description = ds, examples = ex,
               validation_pattern = vp\<rparr>)))))
      | _ \<Rightarrow> Inl ValidationError)"

definition validate_field_dict :: "pyval \<Rightarrow> error + (string \<times> PropertyField) list" where
  "validate_field_dict x =
     (case x of
        PyDict d \<Rightarrow>
          validate_all (\<lambda>kv. bind_err (validate_field (snd kv)) (\<lambda>fld. Inr (fst kv, fld))) d
      | _ \<Rightarrow> Inl ValidationError)"

definition model_validate :: "pyval \<Rightarrow> error + PropertyFormModel" where
  "model_validate x =
     (case x of
        PyDict d \<Rightarrow>
          bind_err (with_default d ''budget'' (budget new_form) validate_field) (\<lambda>b.
          bind_err (with_default d ''total_size'' (total_size new_form) validate_field) (\<lambda>t.
          bind_err (with_default d ''real_estate_type'' (real_estate_type new_form) validate_field) (\<lambda>r.
          bind_err (with_default d ''city'' (city new_form) validate_field) (\<lambda>c.
          bind_err (with_default d ''additional_fields'' [] validate_field_dict) (\<lambda>a.
          bind_err (with_default d ''form_complete'' False validate_bool) (\<lambda>fc.
          Inr \<lparr>budget = b, total_size = t, real_estate_type = r, city = c,
               additional_fields = a, form_complete = fc\<rparr>))))))
      | _ \<Rightarrow> Inl ValidationError)"

text \<open>
  The functions of the adapter mutate the state they are given, also when they then
  raise: each returns the state it leaves with its result or its exception.
\<close>

definition initialize_form_in_state :: "state \<Rightarrow> state" where
  "initialize_form_in_state s =
     (if s ''property_form'' = None then s(''property_form'' \<mapsto> model_dump new_form) else s)"

definition get_form_from_state :: "state \<Rightarrow> state \<times> (error + PropertyFormModel)" where
  "get_form_from_state s =
     (let s' = initialize_form_in_state s in
      (s', case s' ''property_form'' of
             None \<Rightarrow> Inl KeyError
           | Some x \<Rightarrow> model_validate x))"

definition update_form_in_state :: "state \<Rightarrow> PropertyFormModel \<Rightarrow> state" where
  "update_form_in_state s form = s(''property_form'' \<mapsto> model_dump form)"

definition update_field_in_form ::
  "regex_engine \<Rightarrow> state \<Rightarrow> string \<Rightarrow> string \<Rightarrow> state \<times> (error + (bool \<times> string option))" where
  "update_field_in_form rx s field_name v =
     (case get_form_from_state s of
        (s', Inl e) \<Rightarrow> (s', Inl e)
      | (s', Inr form) \<Rightarrow>
          (case update_field rx form field_name v of
             Inl e \<Rightarrow> (s', Inl e)
           | Inr (form', r) \<Rightarrow> (update_form_in_state s' form', Inr r)))"




section \<open>Agent tools (app/agents/tools/tools.py, app/agents/form_validator.py)\<close>

text \<open>
  The dicts the tools return have fixed keys; a key that a branch leaves out is \<open>None\<close>.
\<close>

record extract_result =
  res_status :: string
  res_field :: string
  res_value :: string
  res_message :: "string option"
  res_error :: "string option"
  res_is_standard_field :: "bool option"

definition standard_fields :: "string list" where
  "standard_fields = [''budget'', ''total_size'', ''real_estate_type'', ''city'']"

text \<open>
  \<open>field_name.lower().replace(' ', '_')\<close>, with \<open>str.lower\<close> as the parameter
  \<open>str_lower\<close>.
\<close>

definition normalize_field_name :: "(string \<Rightarrow> string) \<Rightarrow> string \<Rightarrow> string" where
  "normalize_field_name str_lower field_name =
     replace_char (CHR '' '') (CHR ''_'') (str_lower field_name)"

text \<open>
  The value the form already holds under the normalized name. \<open>hasattr\<close> is true of
  each of the four standard names, which are attributes of every form.
\<close>

definition current_value_of :: "PropertyFormModel \<Rightarrow> string \<Rightarrow> string option" where
  "current_value_of form n =
     (if n \<in> set standard_fields then field_value (getattr_field form n)
      else (case map_of (additional_fields form) n of
              Some fld \<Rightarrow> field_value fld
            | None \<Rightarrow> None))"

text \<open>
  \<open>extract_field\<close>. The incoming value is a \<open>str\<close>, so \<open>current_value == value\<close> holds
  exactly when the current value is that string (\<open>None\<close> equals no string).
\<close>

definition extract_field ::
  "regex_engine \<Rightarrow> (string \<Rightarrow> string) \<Rightarrow> string \<Rightarrow> string \<Rightarrow> state \<Rightarrow>
     state \<times> (error + extract_result)" where
  "extract_field rx str_lower field_name v s =
     (let normalized_field_name = normalize_field_name str_lower field_name;
          is_standard_field = (normalized_field_name \<in> set standard_fields)
      in case get_form_from_state s of
           (s1, Inl e) \<Rightarrow> (s1, Inl e)
         | (s1, Inr form) \<Rightarrow>
             if current_value_of form normalized_field_name = Some v then
               (s1, Inr \<lparr>res_status = ''unchanged'', res_field = normalized_field_name,
                         res_value = v, res_message = Some ''Field already has this value'',
                         res_error = None, res_is_standard_field = None\<rparr>)
             else
               (case update_field_in_form rx s1 normalized_field_name v of
                  (s2, Inl e) \<Rightarrow> (s2, Inl e)
                | (s2, Inr (success, error_msg)) \<Rightarrow>
                    if \<not> success then
                      (s2, Inr \<lparr>res_status = ''error'', res_field = normalized_field_name,
                                res_value = v, res_message = None,
                                res_error =
                                  Some (case error_msg of
                                          None \<Rightarrow> ''Validation failed''
                                        | Some m \<Rightarrow> if m = [] then ''Validation failed'' else m),
                                res_is_standard_field = None\<rparr>)
                    else
                      (s2, Inr \<lparr>res_status = ''success'', res_field = normalized_field_name,
                                res_value = v, res_message = None, res_error = None,
                                res_is_standard_field = Some is_standard_field\<rparr>)))"




section \<open>Samples of the Python built-ins, for the concrete inputs\<close>

text \<open>
  The concrete inputs below are texts of ASCII characters. On such texts \<open>str.lower\<close>
  maps the letters A to Z to a to z and keeps every other character, and \<open>str.title\<close>
  puts the first letter of each run of letters in upper case and the others in lower
  case. \<open>ascii_lower\<close> and \<open>ascii_title\<close> are these two functions; they say nothing of
  texts with other characters, and no general theorem uses them.
\<close>

definition is_upper :: "char \<Rightarrow> bool" where
  "is_upper c = (let n = (of_char c :: nat) in 65 \<le> n \<and> n \<le> 90)"

definition is_lower :: "char \<Rightarrow> bool" where
  "is_lower c = (let n = (of_char c :: nat) in 97 \<le> n \<and> n \<le> 122)"

definition lower_char :: "char \<Rightarrow> char" where
  "lower_char c = (if is_upper c then char_of ((of_char c :: nat) + 32) else c)"


definition ascii_lower :: "string \<Rightarrow> string" where
  "ascii_lower s = map lower_char s"



text \<open>
  Python's \<open>re\<close> on three kinds of pattern: \<open>.+\<close> (one or more characters other than
  a newline, so a match at the start needs a first character that is no newline);
  patterns of ASCII letters and digits only (which match themselves, so a match at
  the start is a prefix); and \<open>(\<close>, an unterminated group, on which \<open>re.compile\<close>
  raises \<open>re.error\<close>. Patterns of other kinds are not part of the sample (it answers
  \<open>None\<close> there as well), and the concrete inputs use none.
\<close>

definition is_alnum :: "char \<Rightarrow> bool" where
  "is_alnum c =
     (let n = (of_char c :: nat) in (48 \<le> n \<and> n \<le> 57) \<or> is_upper c \<or> is_lower c)"

definition sample_rx :: regex_engine where
  "sample_rx p v =
     (if p = ''.+'' then Some (case v of [] \<Rightarrow> False | c # _ \<Rightarrow> c \<noteq> CHR 0x0A)
      else if p = ''('' then None
      else if p \<noteq> [] \<and> list_all is_alnum p then Some (take (length p) v = p)
      else None)"

section \<open>Auxiliary definitions for the proofs and the concrete inputs\<close>

text \<open>
  The required fields of the freshly created form carry no pattern, and no operation
  of the form assigns a pattern.
\<close>

definition no_patterns :: "PropertyFormModel \<Rightarrow> bool" where
  "no_patterns f =
     (validation_pattern (budget f) = None \<and> validation_pattern (total_size f) = None \<and>
      validation_pattern (real_estate_type f) = None \<and> validation_pattern (city f) = None)"

text \<open>
  Concrete forms and states: an empty form whose city field carries the pattern \<open>p\<close>
  (a form can be loaded with any pattern from the session state); that form after the
  value \<open>Berlin\<close> was rejected by the pattern \<open>Mex\<close>; the fresh form after the budget
  was set; and session states holding them.
\<close>

definition city_pattern_form :: "string \<Rightarrow> PropertyFormModel" where
  "city_pattern_form p = new_form\<lparr>city := (city new_form)\<lparr>validation_pattern := Some p\<rparr>\<rparr>"

definition rejected_city_form :: PropertyFormModel where
  "rejected_city_form =
     (city_pattern_form ''Mex'')
       \<lparr>city := (city (city_pattern_form ''Mex''))
                  \<lparr>field_value := Some ''Berlin'', status := INVALID\<rparr>\<rparr>"


definition state_of_form :: "PropertyFormModel \<Rightarrow> state" where
  "state_of_form form = Map.empty(''property_form'' \<mapsto> model_dump form)"


section \<open>Properties of the form model\<close>

text \<open>
  C4. For every form, \<open>get_missing_fields\<close> returns the names budget, total_size,
  real_estate_type, city, in that order, restricted to those whose field's status is
  not VALID.
\<close>

theorem get_missing_fields_exact:
  "get_missing_fields f =
     (if status (budget f) = VALID then [] else [''budget'']) @
     (if status (total_size f) = VALID then [] else [''total_size'']) @
     (if status (real_estate_type f) = VALID then [] else [''real_estate_type'']) @
     (if status (city f) = VALID then [] else [''city'']) \<and>
   get_missing_fields f =
     filter (\<lambda>n. status (getattr_field f n) \<noteq> VALID)
       [''budget'', ''total_size'', ''real_estate_type'', ''city'']"
  by (simp add: get_missing_fields_def fields_map_def getattr_field_def)

subsection \<open>Completeness\<close>

lemma is_complete_iff:
  "is_complete f \<longleftrightarrow>
     status (budget f) = VALID \<and> status (total_size f) = VALID \<and>
     status (real_estate_type f) = VALID \<and> status (city f) = VALID"
  by (simp add: is_complete_def)

lemma required_cases:
  "n \<in> set required_names \<Longrightarrow>
     n = ''budget'' \<or> n = ''total_size'' \<or> n = ''real_estate_type'' \<or> n = ''city''"
  by (simp add: required_names_def)

text \<open>The required branch of \<open>update_field\<close>, once the validation has returned.\<close>

lemma update_field_required:
  assumes "n \<in> set required_names"
    and "validate_value rx (getattr_field f n) v = Inr (ok, msg)"
  shows "update_field rx f n v =
           Inr ((setattr_field f n
                   ((getattr_field f n)\<lparr>field_value := Some v,
                                          status := (if ok then VALID else INVALID)\<rparr>))
                  \<lparr>form_complete :=
                     is_complete (setattr_field f n
                       ((getattr_field f n)\<lparr>field_value := Some v,
                                              status := (if ok then VALID else INVALID)\<rparr>))\<rparr>,
                (ok, msg))"
  using assms by (simp add: update_field_def update_completion_status_def Let_def)

lemma getattr_setattr:
  assumes "n \<in> set required_names"
  shows "getattr_field (setattr_field f n fld) n = fld"
  using required_cases [OF assms]
  by (elim disjE; simp add: getattr_field_def setattr_field_def)

lemma getattr_form_complete:
  "getattr_field (f\<lparr>form_complete := b\<rparr>) n = getattr_field f n"
  by (simp add: getattr_field_def)

lemma is_complete_form_complete:
  "is_complete (f\<lparr>form_complete := b\<rparr>) = is_complete f"
  by (simp add: is_complete_def)

lemma no_patterns_getattr:
  "no_patterns f \<Longrightarrow> validation_pattern (getattr_field f n) = None"
  by (simp add: no_patterns_def getattr_field_def)

lemma no_patterns_setattr:
  assumes "no_patterns f" and "validation_pattern fld = None"
  shows "no_patterns (setattr_field f n fld)"
  using assms by (simp add: no_patterns_def setattr_field_def)

lemma no_patterns_form_complete:
  "no_patterns (f\<lparr>form_complete := b\<rparr>) = no_patterns f"
  by (simp add: no_patterns_def)

lemma no_patterns_additional:
  "no_patterns (f\<lparr>additional_fields := a\<rparr>) = no_patterns f"
  by (simp add: no_patterns_def)

lemma is_complete_additional:
  "is_complete (f\<lparr>additional_fields := a\<rparr>) = is_complete f"
  by (simp add: is_complete_def)

text \<open>
  One call keeps the invariant: on a form without patterns whose flag agrees with
  \<open>is_complete\<close>, \<open>update_field\<close> returns (the regular expression engine is not
  reached) and the form it leaves is again such a form.
\<close>

lemma update_field_keeps_inv:
  assumes "no_patterns f" and "form_complete f = is_complete f"
  shows "\<exists>f' r. update_field rx f n v = Inr (f', r) \<and> no_patterns f' \<and>
                 form_complete f' = is_complete f'"
proof (cases "n \<in> set required_names")
  case True
  have vp: "validation_pattern (getattr_field f n) = None"
    using assms(1) by (rule no_patterns_getattr)
  have vv: "validate_value rx (getattr_field f n) v = Inr (True, None)"
    by (simp add: validate_value_def vp)
  have np: "no_patterns (setattr_field f n
              ((getattr_field f n)\<lparr>field_value := Some v, status := VALID\<rparr>))"
    by (rule no_patterns_setattr [OF assms(1)]) (simp add: vp)
  show ?thesis
    using np
    by (auto simp add: update_field_required [OF True vv] no_patterns_form_complete
          is_complete_form_complete)
next
  case False
  then show ?thesis
    using assms
    by (cases "map_of (additional_fields f) n")
       (auto simp add: update_field_def no_patterns_additional is_complete_additional)
qed

lemma update_fields_inv:
  "no_patterns f \<Longrightarrow> form_complete f = is_complete f \<Longrightarrow>
     \<exists>f'. update_fields rx f calls = Inr f' \<and> no_patterns f' \<and> form_complete f' = is_complete f'"
proof (induction calls arbitrary: f)
  case Nil
  then show ?case by simp
next
  case (Cons c calls)
  obtain n v where c: "c = (n, v)" by (cases c)
  obtain f1 r where s1: "update_field rx f n v = Inr (f1, r)"
    and i1: "no_patterns f1" "form_complete f1 = is_complete f1"
    using update_field_keeps_inv [OF Cons.prems] by blast
  from Cons.IH [OF i1] show ?case by (simp add: c s1)
qed

lemma new_form_inv: "no_patterns new_form \<and> form_complete new_form = is_complete new_form"
  by (simp add: no_patterns_def new_form_def default_field_def is_complete_def)

text \<open>
  C1. Starting from the freshly created form, every sequence of \<open>update_field\<close> calls
  (any names, any values, any regular expression engine) runs to its end without an
  exception, and in the form it leaves the cached flag \<open>form_complete\<close> agrees with
  \<open>is_complete()\<close> and is true if and only if budget, total_size, real_estate_type and
  city all have status VALID.
\<close>

theorem update_fields_form_complete:
  "\<exists>f'. update_fields rx new_form calls = Inr f' \<and>
         form_complete f' = is_complete f' \<and>
         (form_complete f' \<longleftrightarrow>
            status (budget f') = VALID \<and> status (total_size f') = VALID \<and>
            status (real_estate_type f') = VALID \<and> status (city f') = VALID)"
proof -
  obtain f' where "update_fields rx new_form calls = Inr f'"
    and "form_complete f' = is_complete f'"
    using update_fields_inv [of new_form rx calls] new_form_inv by blast
  then show ?thesis by (auto simp: is_complete_iff)
qed

subsection \<open>Validation\<close>

lemma sample_rx_Mex_Berlin: "sample_rx ''Mex'' ''Berlin'' = Some False"
  by code_simp

lemma sample_rx_dot_plus_empty: "sample_rx ''.+'' [] = Some False"
  by code_simp







subsection \<open>Updates of one field\<close>

lemma map_of_dict_setitem: "map_of (dict_setitem k v d) k = Some v"
  by (induction d) auto


text \<open>
  C5. For every field name that is not one of the four required names, \<open>update_field\<close>
  returns \<open>(True, None)\<close> and leaves under that name an additional field with status
  VALID and the given value; when the name was new, that field has the description
  \<open>Additional field: \<close> followed by the name, and the value as its only example.
\<close>

theorem update_field_additional:
  assumes "field_name \<notin> set required_names"
  shows "\<exists>f' fld. update_field rx f field_name v = Inr (f', (True, None)) \<and>
           map_of (additional_fields f') field_name = Some fld \<and>
           status fld = VALID \<and> field_value fld = Some v \<and>
           (map_of (additional_fields f) field_name = None \<longrightarrow>
              description fld = ''Additional field: '' @ field_name \<and> examples fld = [v])"
  using assms
  by (cases "map_of (additional_fields f) field_name")
     (simp_all add: update_field_def map_of_dict_setitem)

theorem update_field_additional_witness:
  "''parking'' \<notin> set required_names \<and>
   (\<exists>f' fld. update_field sample_rx new_form ''parking'' ''yes'' = Inr (f', (True, None)) \<and>
      map_of (additional_fields f') ''parking'' = Some fld \<and>
      status fld = VALID \<and> field_value fld = Some ''yes'' \<and>
      description fld = ''Additional field: parking'' \<and> examples fld = [''yes''])"
proof -
  have h: "''parking'' \<notin> set required_names" by (simp add: required_names_def)
  have n: "map_of (additional_fields new_form) ''parking'' = None"
    by (simp add: new_form_def)
  show ?thesis
    using h n update_field_additional [OF h, of sample_rx new_form "''yes''"] by simp
qed

text \<open>
  C7. When the validation of a value for a required field fails, \<open>update_field\<close> still
  stores the value with status INVALID in that field, recomputes \<open>form_complete\<close> (which
  is then false), and returns \<open>False\<close> with the validation's message.
\<close>

theorem update_field_invalid_persisted:
  assumes "n \<in> set required_names"
    and "validate_value rx (getattr_field f n) v = Inr (False, msg)"
  shows "\<exists>f'. update_field rx f n v = Inr (f', (False, msg)) \<and>
           field_value (getattr_field f' n) = Some v \<and>
           status (getattr_field f' n) = INVALID \<and>
           form_complete f' = is_complete f' \<and> \<not> form_complete f'"
proof -
  let ?fld = "(getattr_field f n)\<lparr>field_value := Some v, status := INVALID\<rparr>"
  let ?f1 = "setattr_field f n ?fld"
  have u: "update_field rx f n v = Inr (?f1\<lparr>form_complete := is_complete ?f1\<rparr>, (False, msg))"
    using update_field_required [OF assms] by simp
  have g: "getattr_field ?f1 n = ?fld" by (rule getattr_setattr [OF assms(1)])
  have nc: "\<not> is_complete ?f1"
    using required_cases [OF assms(1)]
    by (elim disjE; simp add: is_complete_def setattr_field_def)
  show ?thesis
    by (simp add: u getattr_form_complete is_complete_form_complete g nc)
qed

lemma city_required: "''city'' \<in> set required_names"
  by (simp add: required_names_def)

lemma validate_Mex_Berlin:
  "validate_value sample_rx (getattr_field (city_pattern_form ''Mex'') ''city'') ''Berlin''
     = Inr (False, Some pattern_mismatch_msg)"
  by (simp add: validate_value_def getattr_field_def city_pattern_form_def sample_rx_Mex_Berlin)

theorem update_field_invalid_persisted_witness:
  "''city'' \<in> set required_names \<and>
   validate_value sample_rx (getattr_field (city_pattern_form ''Mex'') ''city'') ''Berlin''
     = Inr (False, Some pattern_mismatch_msg) \<and>
   (\<exists>f'. update_field sample_rx (city_pattern_form ''Mex'') ''city'' ''Berlin''
            = Inr (f', (False, Some pattern_mismatch_msg)) \<and>
          field_value (getattr_field f' ''city'') = Some ''Berlin'' \<and>
          status (getattr_field f' ''city'') = INVALID \<and>
          form_complete f' = is_complete f' \<and> \<not> form_complete f')"
  using city_required validate_Mex_Berlin
    update_field_invalid_persisted [OF city_required validate_Mex_Berlin]
  by simp

text \<open>
  C2, as the code has it. The empty string is never matched against a pattern:
  whatever pattern the city field carries, \<open>update_field("city", "")\<close> returns
  \<open>(True, None)\<close>, sets the status of city to VALID and stores the empty string as its
  value.
\<close>

theorem update_field_empty_city_accepted:
  "\<exists>f'. update_field rx f ''city'' [] = Inr (f', (True, None)) \<and>
         status (city f') = VALID \<and> field_value (city f') = Some []"
proof -
  have vv: "validate_value rx (getattr_field f ''city'') [] = Inr (True, None)"
    by (simp add: validate_value_def split: option.splits)
  show ?thesis
    by (simp add: update_field_required [OF city_required vv] setattr_field_def getattr_field_def)
qed

text \<open>
  C2 as stated fails. The city field carries the pattern \<open>.+\<close>, which the empty string
  does not match; \<open>update_field("city", "")\<close> returns \<open>(True, None)\<close> with status VALID,
  not \<open>False\<close> with a message and status INVALID.
\<close>

theorem update_field_empty_city_counterexample:
  "sample_rx ''.+'' [] = Some False \<and>
   update_field sample_rx (city_pattern_form ''.+'') ''city'' []
     = Inr ((city_pattern_form ''.+'')
              \<lparr>city := (city (city_pattern_form ''.+''))\<lparr>field_value := Some [], status := VALID\<rparr>,
               form_complete := False\<rparr>,
            (True, None)) \<and>
   update_field sample_rx (city_pattern_form ''.+'') ''city'' []
     \<noteq> Inr ((city_pattern_form ''.+'')
              \<lparr>city := (city (city_pattern_form ''.+''))\<lparr>field_value := Some [], status := INVALID\<rparr>,
               form_complete := False\<rparr>,
            (False, Some pattern_mismatch_msg))"
proof -
  let ?F = "city_pattern_form ''.+''"
  have vv: "validate_value sample_rx (getattr_field ?F ''city'') [] = Inr (True, None)"
    by (simp add: validate_value_def split: option.splits)
  have g: "getattr_field ?F ''city'' = city ?F"
    by (simp add: getattr_field_def)
  have s: "\<And>c. setattr_field ?F ''city'' c = ?F\<lparr>city := c\<rparr>"
    by (simp add: setattr_field_def)
  have nc: "\<And>c. is_complete (?F\<lparr>city := c\<rparr>) = False"
    by (simp add: is_complete_def city_pattern_form_def new_form_def default_field_def)
  have u: "update_field sample_rx ?F ''city'' []
             = Inr (?F\<lparr>city := (city ?F)\<lparr>field_value := Some [], status := VALID\<rparr>,
                       form_complete := False\<rparr>,
                    (True, None))"
    using update_field_required [OF city_required vv] by (simp add: g s nc)
  show ?thesis
    by (simp add: sample_rx_dot_plus_empty u)
qed

subsection \<open>Serialization\<close>

lemma validate_all_map:
  assumes "\<And>x. g (h x) = Inr x"
  shows "validate_all g (map h xs) = Inr xs"
  by (induction xs) (simp_all add: assms bind_err_def)

lemma validate_field_dump: "validate_field (dump_field fld) = Inr fld"
  by (cases fld; cases "status fld"; cases "field_value fld"; cases "validation_pattern fld")
     (simp_all add: validate_field_def dump_field_def bind_err_def with_default_def required_key_def
       validate_status_def status_value_def validate_optional_str_def dump_optional_str_def
       validate_str_def validate_str_list_def validate_all_map)

lemma validate_field_dict_dump:
  "validate_field_dict (PyDict (map (\<lambda>kv. (fst kv, dump_field (snd kv))) d)) = Inr d"
  unfolding validate_field_dict_def
  by (simp add: validate_all_map [where h = "\<lambda>kv. (fst kv, dump_field (snd kv))"]
        validate_field_dump bind_err_def)

lemma model_validate_dump: "model_validate (model_dump f) = Inr f"
  by (simp add: model_validate_def model_dump_def bind_err_def with_default_def
        validate_field_dump validate_field_dict_dump validate_bool_def)

lemma get_form_present:
  "s ''property_form'' = Some d \<Longrightarrow> get_form_from_state s = (s, model_validate d)"
  by (simp add: get_form_from_state_def initialize_form_in_state_def)

lemma get_form_absent:
  "s ''property_form'' = None \<Longrightarrow>
     get_form_from_state s = (s(''property_form'' \<mapsto> model_dump new_form), Inr new_form)"
  by (simp add: get_form_from_state_def initialize_form_in_state_def model_validate_dump)

text \<open>
  C8. For every form and every state, saving the form with \<open>update_form_in_state\<close> and
  loading it with \<open>get_form_from_state\<close> returns that very form (so the values and the
  statuses of all required and additional fields are the same), and the load leaves
  the state as the save left it.
\<close>

theorem save_load_roundtrip:
  "get_form_from_state (update_form_in_state s form) = (update_form_in_state s form, Inr form)"
  by (simp add: get_form_present [of _ "model_dump form"] update_form_in_state_def
        model_validate_dump)

subsection \<open>Repeated updates\<close>

lemma current_value_new_form: "current_value_of new_form n = None"
  by (simp add: current_value_of_def new_form_def getattr_field_def default_field_def)

text \<open>A load that finds a stored value under some name has not written to the state.\<close>

lemma get_form_keeps_state:
  assumes "get_form_from_state s = (s', Inr form)"
    and "current_value_of form n = Some v"
  shows "s' = s"
proof (cases "s ''property_form''")
  case None
  from get_form_absent [of s, OF None] assms(1) have "form = new_form" by simp
  with assms(2) show ?thesis by (simp add: current_value_new_form)
next
  case (Some d)
  from get_form_present [of s d, OF Some] assms(1) show ?thesis by simp
qed





lemma extract_field_same_value:
  assumes "get_form_from_state s = (s', Inr form)"
    and "current_value_of form (normalize_field_name str_lower field_name) = Some v"
  shows "extract_field rx str_lower field_name v s =
           (s, Inr \<lparr>res_status = ''unchanged'',
                    res_field = normalize_field_name str_lower field_name, res_value = v,
                    res_message = Some ''Field already has this value'',
                    res_error = None, res_is_standard_field = None\<rparr>)"
proof -
  have "s' = s" by (rule get_form_keeps_state [OF assms])
  then show ?thesis
    using assms by (simp add: extract_field_def Let_def)
qed



lemma normalize_City: "normalize_field_name ascii_lower ''City'' = ''city''"
  by code_simp





text \<open>
  C10. Whenever the state holds a form in which the required field of the normalized
  name has the incoming value as its value, \<open>extract_field\<close> returns the status
  \<open>unchanged\<close> without an error entry and leaves the state as it was. The status of the
  field is not consulted: it may be INVALID, the value having been rejected before.
\<close>

theorem extract_field_unchanged_any_status:
  assumes "normalize_field_name str_lower field_name \<in> set standard_fields"
    and "s ''property_form'' = Some d"
    and "model_validate d = Inr form"
    and "field_value (getattr_field form (normalize_field_name str_lower field_name)) = Some v"
    and "status (getattr_field form (normalize_field_name str_lower field_name)) = st"
  shows "extract_field rx str_lower field_name v s =
           (s, Inr \<lparr>res_status = ''unchanged'',
                    res_field = normalize_field_name str_lower field_name, res_value = v,
                    res_message = Some ''Field already has this value'',
                    res_error = None, res_is_standard_field = None\<rparr>)"
proof -
  have l: "get_form_from_state s = (s, Inr form)"
    using get_form_present [of s d, OF assms(2)] assms(3) by simp
  have c: "current_value_of form (normalize_field_name str_lower field_name) = Some v"
    using assms(1,4) by (simp add: current_value_of_def)
  show ?thesis by (rule extract_field_same_value [OF l c])
qed

lemma city_standard: "normalize_field_name ascii_lower ''City'' \<in> set standard_fields"
  by (simp add: normalize_City standard_fields_def)

lemma rejected_state_lookup:
  "state_of_form rejected_city_form ''property_form'' = Some (model_dump rejected_city_form)"
  by (simp add: state_of_form_def)

lemma rejected_city_value:
  "field_value (getattr_field rejected_city_form (normalize_field_name ascii_lower ''City'')) = Some ''Berlin''"
  by (simp add: normalize_City getattr_field_def rejected_city_form_def)

lemma rejected_city_status:
  "status (getattr_field rejected_city_form (normalize_field_name ascii_lower ''City'')) = INVALID"
  by (simp add: normalize_City getattr_field_def rejected_city_form_def)

theorem extract_field_unchanged_any_status_witness:
  "normalize_field_name ascii_lower ''City'' \<in> set standard_fields \<and>
   state_of_form rejected_city_form ''property_form'' = Some (model_dump rejected_city_form) \<and>
   model_validate (model_dump rejected_city_form) = Inr rejected_city_form \<and>
   field_value (getattr_field rejected_city_form (normalize_field_name ascii_lower ''City'')) = Some ''Berlin'' \<and>
   status (getattr_field rejected_city_form (normalize_field_name ascii_lower ''City'')) = INVALID \<and>
   extract_field sample_rx ascii_lower ''City'' ''Berlin'' (state_of_form rejected_city_form) =
     (state_of_form rejected_city_form,
      Inr \<lparr>res_status = ''unchanged'', res_field = ''city'', res_value = ''Berlin'',
           res_message = Some ''Field already has this value'',
           res_error = None, res_is_standard_field = None\<rparr>)"
  using city_standard rejected_state_lookup model_validate_dump [of rejected_city_form]
    rejected_city_value rejected_city_status
    extract_field_unchanged_any_status
      [where s = "state_of_form rejected_city_form" and rx = sample_rx
         and str_lower = ascii_lower,
       OF city_standard rejected_state_lookup model_validate_dump [of rejected_city_form]
          rejected_city_value rejected_city_status]
  by (simp add: normalize_City)

subsection \<open>The validation counter\<close>











end
